theory Spec2Isabelle
  imports Complex_Main "HOL-Library.Char_ord" "HOL-Library.List_Lexorder"
begin

section \<open>Python values met by the rule engine\<close>

text \<open>
  A Python \<open>float\<close> is an IEEE binary64: a rational, an infinity, or NaN. Every
  comparison with NaN is false, except \<open>!=\<close>, which is true.
\<close>

datatype pyfloat = Fin rat | PosInf | NegInf | NaN

fun f_lt :: "pyfloat \<Rightarrow> pyfloat \<Rightarrow> bool" where
  "f_lt NaN b = False"
| "f_lt a NaN = False"
| "f_lt (Fin x) (Fin y) = (x < y)"
| "f_lt a NegInf = False"
| "f_lt NegInf b = True"
| "f_lt PosInf b = False"
| "f_lt a PosInf = True"

definition f_eq :: "pyfloat \<Rightarrow> pyfloat \<Rightarrow> bool" where
  "f_eq a b = (a \<noteq> NaN \<and> a = b)"

definition f_le :: "pyfloat \<Rightarrow> pyfloat \<Rightarrow> bool" where
  "f_le a b = (f_lt a b \<or> f_eq a b)"

definition f_gt :: "pyfloat \<Rightarrow> pyfloat \<Rightarrow> bool" where
  "f_gt a b = f_lt b a"

definition f_ge :: "pyfloat \<Rightarrow> pyfloat \<Rightarrow> bool" where
  "f_ge a b = f_le b a"

text \<open>
  The cells of a table column that the engine reads are strings or floats; a missing
  cell is the float NaN (what \<open>pd.isna\<close> recognises).
\<close>

datatype pyval = PStr string | PFloat pyfloat

datatype error = IndexError | ValueError | TypeError

text \<open>
  Python's builtin \<open>float(s)\<close> on a string is a parameter of the model, of type
  \<open>float_parser\<close>: \<open>None\<close> when it raises ValueError. \<open>dec_float\<close> is the parser used to
  run the examples: an optional sign, digits, and optionally a point followed by digits.
  Python's \<open>float\<close> returns the same value on every such literal whose value is a
  binary64 number (as \<open>0\<close>, \<open>1\<close>, \<open>5\<close>, \<open>8\<close> and \<open>2.5\<close> are); the exponent forms,
  \<open>inf\<close>, \<open>nan\<close>, underscores and surrounding blanks that \<open>float\<close> also reads are
  outside \<open>dec_float\<close>, and so is rounding.
\<close>

type_synonym float_parser = "string \<Rightarrow> pyfloat option"

definition digit_val :: "char \<Rightarrow> nat option" where
  "digit_val c = map_of (zip ''0123456789'' [0, 1, 2, 3, 4, 5, 6, 7, 8, 9]) c"

fun digits_val :: "nat \<Rightarrow> string \<Rightarrow> nat option" where
  "digits_val acc [] = Some acc"
| "digits_val acc (c # cs) =
     (case digit_val c of None \<Rightarrow> None | Some d \<Rightarrow> digits_val (10 * acc + d) cs)"

definition unsigned_dec :: "string \<Rightarrow> rat option" where
  "unsigned_dec s =
     (let ip = takeWhile (\<lambda>c. c \<noteq> CHR ''.'') s;
          rest = dropWhile (\<lambda>c. c \<noteq> CHR ''.'') s;
          fp = tl rest
      in if ip = [] then None
         else (case digits_val 0 ip of
                 None \<Rightarrow> None
               | Some i \<Rightarrow>
                   (case digits_val 0 fp of
                      None \<Rightarrow> None
                    | Some f \<Rightarrow> Some (of_nat i + of_nat f / 10 ^ length fp))))"

definition dec_float :: float_parser where
  "dec_float s =
     (case s of
        [] \<Rightarrow> None
      | c # cs \<Rightarrow>
          if c = CHR ''-'' then map_option (\<lambda>q. Fin (- q)) (unsigned_dec cs)
          else if c = CHR ''+'' then map_option Fin (unsigned_dec cs)
          else map_option Fin (unsigned_dec s))"

text \<open>\<open>str2float\<close>: \<open>try: return float(x)  except: return x\<close>.\<close>

definition str2float :: "float_parser \<Rightarrow> pyval \<Rightarrow> pyval" where
  "str2float fl x =
     (case x of
        PFloat f \<Rightarrow> PFloat f
      | PStr s \<Rightarrow> (case fl s of Some f \<Rightarrow> PFloat f | None \<Rightarrow> PStr s))"

definition is_float :: "pyval \<Rightarrow> bool" where
  "is_float v = (case v of PFloat f \<Rightarrow> True | PStr s \<Rightarrow> False)"

section \<open>Operators\<close>

text \<open>
  \<open>a == b\<close> never raises: two strings or two floats are compared, a string and a float
  are unequal. The order comparisons raise TypeError on a string and a float; two strings
  are compared lexicographically by character code.
\<close>

fun py_eq :: "pyval \<Rightarrow> pyval \<Rightarrow> bool" where
  "py_eq (PStr a) (PStr b) = (a = b)"
| "py_eq (PFloat a) (PFloat b) = f_eq a b"
| "py_eq (PStr a) (PFloat b) = False"
| "py_eq (PFloat a) (PStr b) = False"

fun py_lt :: "pyval \<Rightarrow> pyval \<Rightarrow> error + bool" where
  "py_lt (PStr a) (PStr b) = Inr (a < b)"
| "py_lt (PFloat a) (PFloat b) = Inr (f_lt a b)"
| "py_lt (PStr a) (PFloat b) = Inl TypeError"
| "py_lt (PFloat a) (PStr b) = Inl TypeError"

fun py_le :: "pyval \<Rightarrow> pyval \<Rightarrow> error + bool" where
  "py_le (PStr a) (PStr b) = Inr (a \<le> b)"
| "py_le (PFloat a) (PFloat b) = Inr (f_le a b)"
| "py_le (PStr a) (PFloat b) = Inl TypeError"
| "py_le (PFloat a) (PStr b) = Inl TypeError"

text \<open>\<open>b in a\<close> for two strings: \<open>b\<close> occurs in \<open>a\<close> as a contiguous run.\<close>

fun starts_with :: "string \<Rightarrow> string \<Rightarrow> bool" where
  "starts_with [] s = True"
| "starts_with (p # ps) [] = False"
| "starts_with (p # ps) (c # cs) = (p = c \<and> starts_with ps cs)"

fun str_in :: "string \<Rightarrow> string \<Rightarrow> bool" where
  "str_in b [] = (b = [])"
| "str_in b (c # cs) = (starts_with b (c # cs) \<or> str_in b cs)"

definition pd_isna :: "pyval \<Rightarrow> bool" where
  "pd_isna a = (a = PFloat NaN)"

text \<open>\<open>s.split(',')\<close>: the pieces between the separators, at least one piece.\<close>

fun split_on :: "char \<Rightarrow> string \<Rightarrow> string list" where
  "split_on sep [] = [[]]"
| "split_on sep (c # cs) =
     (if c = sep then [] # split_on sep cs
      else (c # hd (split_on sep cs)) # tl (split_on sep cs))"

text \<open>
  \<open>handle_between\<close>. Every step that can raise is a branch: \<open>target[0]\<close> on a float
  (TypeError) or on the empty string (IndexError), the unpacking of \<open>split\<close> into
  exactly two names (ValueError), \<open>float(lo)\<close> and \<open>float(hi)\<close> (ValueError), and the
  comparison of a string value with a float bound (TypeError).
\<close>

definition handle_between :: "float_parser \<Rightarrow> pyval \<Rightarrow> pyval \<Rightarrow> error + bool" where
  "handle_between fl val target =
     (case target of
        PFloat t \<Rightarrow> Inl TypeError
      | PStr t \<Rightarrow>
          if t = [] then Inl IndexError
          else
            let lower_inc = (hd t = CHR ''['');
                upper_inc = (last t = CHR '']'');
                parts = split_on CHR '','' (butlast (tl t))
            in if length parts \<noteq> 2 then Inl ValueError
               else
                 (case fl (parts ! 0) of
                    None \<Rightarrow> Inl ValueError
                  | Some lo \<Rightarrow>
                      (case fl (parts ! 1) of
                         None \<Rightarrow> Inl ValueError
                       | Some hi \<Rightarrow>
                           (case val of
                              PStr v \<Rightarrow> Inl TypeError
                            | PFloat v \<Rightarrow>
                                let ok_lo = (if lower_inc then f_ge v lo else f_gt v lo);
                                    ok_hi = (if upper_inc then f_le v hi else f_lt v hi)
                                in Inr (ok_lo \<and> ok_hi)))))"

text \<open>
  The dictionary \<open>ops\<close> of \<open>evaluate_condition_logic\<close>: operator name to function.
  \<open>ops.get(operator)\<close> returns \<open>None\<close> for any other name.
\<close>

definition op_contains :: "pyval \<Rightarrow> pyval \<Rightarrow> error + bool" where
  "op_contains a b =
     (case a of
        PFloat x \<Rightarrow> Inr False
      | PStr s \<Rightarrow> (case b of PStr t \<Rightarrow> Inr (str_in t s) | PFloat y \<Rightarrow> Inl TypeError))"

definition op_not_contains :: "pyval \<Rightarrow> pyval \<Rightarrow> error + bool" where
  "op_not_contains a b =
     (case a of
        PFloat x \<Rightarrow> Inr False
      | PStr s \<Rightarrow> (case b of PStr t \<Rightarrow> Inr (\<not> str_in t s) | PFloat y \<Rightarrow> Inl TypeError))"

definition op_empty :: "pyval \<Rightarrow> pyval \<Rightarrow> error + bool" where
  "op_empty a b = Inr (pd_isna a \<or> py_eq a (PStr []))"

definition op_not_empty :: "pyval \<Rightarrow> pyval \<Rightarrow> error + bool" where
  "op_not_empty a b = Inr (\<not> (pd_isna a \<or> py_eq a (PStr [])))"

definition ops :: "float_parser \<Rightarrow> string \<Rightarrow> (pyval \<Rightarrow> pyval \<Rightarrow> error + bool) option" where
  "ops fl = map_of
     [(''=='', \<lambda>a b. Inr (py_eq a b)),
      (''!='', \<lambda>a b. Inr (\<not> py_eq a b)),
      (''<'', \<lambda>a b. py_lt a b),
      (''<='', \<lambda>a b. py_le a b),
      (''>'', \<lambda>a b. py_lt b a),
      (''>='', \<lambda>a b. py_le b a),
      (''contains'', op_contains),
      (''not_contains'', op_not_contains),
      (''empty'', op_empty),
      (''not_empty'', op_not_empty),
      (''between'', \<lambda>val tgt. handle_between fl val tgt)]"

definition supported_operators :: "string list" where
  "supported_operators =
     [''=='', ''!='', ''<'', ''<='', ''>'', ''>='', ''contains'', ''not_contains'',
      ''empty'', ''not_empty'', ''between'']"

text \<open>
  \<open>evaluate_condition_logic\<close>: an unknown operator gives \<open>False\<close>; the call of the
  operator's function sits in \<open>try: ... except: return False\<close>.
\<close>

definition evaluate_condition_logic :: "float_parser \<Rightarrow> pyval \<Rightarrow> string \<Rightarrow> pyval \<Rightarrow> bool" where
  "evaluate_condition_logic fl val operator target =
     (case ops fl operator of
        None \<Rightarrow> False
      | Some func \<Rightarrow> (case func val target of Inl e \<Rightarrow> False | Inr b \<Rightarrow> b))"

section \<open>The condition, group and workflow evaluators\<close>

text \<open>
  Rows of the tables the evaluators read. The configuration tables are loaded with
  \<open>dtype=str\<close>; identifiers, operator names and question names are strings. The content
  of a response and the comparison value of a condition are cells (\<open>pyval\<close>).
  \<open>skipped\<close> and \<open>not_seen\<close> are what \<open>response.get("skipped", False)\<close> and
  \<open>response.get("not_seen", False)\<close> are taken for in the \<open>if\<close>.
\<close>

record response =
  question_name :: string
  content :: pyval
  skipped :: bool
  not_seen :: bool

record condition =
  c_id :: string
  c_group_id :: string
  c_operator :: string
  c_value :: pyval
  c_skip_behavior :: string

record cond_question =
  cq_condition_id :: string
  cq_question_name :: string

record cond_group =
  g_id :: string
  g_workflow_id :: string
  g_logical_operator :: string

record workflow =
  w_id :: string
  w_logical_operator :: string
  w_tag_id :: string

text \<open>
  The \<open>for\<close> loop of \<open>eval_single_condition\<close> over the rows of \<open>sub\<close>. The variable
  \<open>target\<close> is assigned inside the loop and keeps its new value in the next
  iterations, so it is an argument of the recursion.
\<close>

fun responses_loop :: "float_parser \<Rightarrow> string \<Rightarrow> bool \<Rightarrow> pyval \<Rightarrow> response list \<Rightarrow> bool" where
  "responses_loop fl op skip_true target [] = False"
| "responses_loop fl op skip_true target (r # rs) =
     (if skipped r then
        (if skip_true then True else responses_loop fl op skip_true target rs)
      else if not_seen r then responses_loop fl op skip_true target rs
      else
        let val_conv = str2float fl (content r);
            target' = (if op \<noteq> ''between'' \<and> is_float val_conv
                       then str2float fl target else target)
        in if evaluate_condition_logic fl val_conv op target' then True
           else responses_loop fl op skip_true target' rs)"

definition eval_single_condition ::
  "float_parser \<Rightarrow> condition \<Rightarrow> response list \<Rightarrow> string list \<Rightarrow> bool" where
  "eval_single_condition fl cond sess_responses cond_qs =
     (let op = c_operator cond;
          target = c_value cond;
          skip_true = (c_skip_behavior cond = ''1'');
          sub = filter (\<lambda>r. question_name r \<in> set cond_qs) sess_responses
      in if op = ''empty'' \<and> sub = [] then True
         else responses_loop fl op skip_true target sub)"

text \<open>\<open>all(results)\<close> and \<open>any(results)\<close> of Python are \<open>list_all id\<close> and \<open>list_ex id\<close>.\<close>

definition eval_condition_group ::
  "float_parser \<Rightarrow> cond_group \<Rightarrow> condition list \<Rightarrow> cond_question list \<Rightarrow> response list \<Rightarrow> bool" where
  "eval_condition_group fl grp conditions cond_questions sess_responses =
     (let grp_id = g_id grp;
          subset = filter (\<lambda>c. c_group_id c = grp_id) conditions;
          results = map (\<lambda>cond.
                      let qs = map cq_question_name
                                 (filter (\<lambda>q. cq_condition_id q = c_id cond) cond_questions)
                      in eval_single_condition fl cond sess_responses qs) subset
      in if g_logical_operator grp = ''AND'' then list_all id results
         else list_ex id results)"

definition eval_workflow ::
  "float_parser \<Rightarrow> workflow \<Rightarrow> cond_group list \<Rightarrow> condition list \<Rightarrow> cond_question list
     \<Rightarrow> response list \<Rightarrow> bool" where
  "eval_workflow fl workflow_row all_groups all_conditions all_cond_questions session_responses =
     (let wf_groups = filter (\<lambda>g. g_workflow_id g = w_id workflow_row) all_groups
      in if wf_groups = [] then False
         else
           let group_results = map (\<lambda>group_row.
                   eval_condition_group fl group_row all_conditions all_cond_questions
                     session_responses) wf_groups
           in if w_logical_operator workflow_row = ''AND'' then list_all id group_results
              else list_ex id group_results)"

section \<open>Compliance and payment tables\<close>

text \<open>
  A pandas DataFrame: the list of its column names and its rows. The rows are typed
  records; a function reads a field only after it has checked that the column is there,
  as the source does with \<open>"count" in daily.columns\<close>. \<open>df.empty\<close> is true when either
  axis has length 0.
\<close>

record 'r frame =
  columns :: "string list"
  rows :: "'r list"

definition df_empty :: "'r frame \<Rightarrow> bool" where
  "df_empty df = (columns df = [] \<or> rows df = [])"

text \<open>
  Time. A calendar date is its day number, a time span a number of microseconds. A
  timezone-aware timestamp (a cell of \<open>local_ts\<close>) is an instant, in microseconds since
  the epoch, with the UTC offset of its zone at that instant. Two aware timestamps are
  compared by their instants.
\<close>

record timestamp =
  instant :: int
  utcoffset :: int

definition day_us :: int where
  "day_us = 86400000000"

text \<open>\<open>datetime.combine(d, time.min)\<close> and \<open>datetime.combine(d, time.max)\<close>: naive
  wall-clock times, in microseconds.\<close>

definition combine_min :: "int \<Rightarrow> int" where
  "combine_min d = d * day_us"

definition combine_max :: "int \<Rightarrow> int" where
  "combine_max d = d * day_us + (day_us - 1)"

text \<open>
  \<open>naive.astimezone(tz)\<close>: Python takes a naive datetime to be in the system's local
  zone, and \<open>tz\<close> only chooses how the resulting instant is displayed. The system zone
  is the parameter \<open>sys_offset\<close>: the UTC offset it gives to a wall-clock time.
\<close>

definition astimezone_naive :: "(int \<Rightarrow> int) \<Rightarrow> int \<Rightarrow> int" where
  "astimezone_naive sys_offset wall = wall - sys_offset wall"

text \<open>\<open>ts.normalize().tz_localize(None)\<close>: the calendar day of the timestamp in its own zone.\<close>

definition local_date :: "timestamp \<Rightarrow> int" where
  "local_date ts = (instant ts + utcoffset ts) div day_us"

text \<open>
  A row of the participant's sessions table, with the two columns the functions read.
  \<open>survey_name\<close> is the string that \<open>astype(str)\<close> gives for the cell; the reason of a
  rate is the string that \<open>str(r_row["reason"])\<close> gives.
\<close>

record session =
  local_ts :: timestamp
  survey_name :: string

record daily_row =
  d_date :: int
  d_count :: int

record rate =
  r_id :: string
  reason :: string
  rate_amount :: rat

record count_row =
  rate_reason :: string
  cr_rate_amount :: rat
  cr_count :: int

record schema_row =
  num_days :: int
  num_possible_per_day :: int
  bonus_threshold :: int

text \<open>\<open>pd.date_range(start=start_date, end=idx_end_date, freq="D")\<close>, with
  \<open>idx_end_date = start_date + (days - 1)\<close>: empty when the end is before the start.\<close>

definition date_range :: "int \<Rightarrow> int \<Rightarrow> int list" where
  "date_range start_date idx_end_date =
     map (\<lambda>i. start_date + int i) [0..<nat (idx_end_date - start_date + 1)]"

text \<open>
  \<open>compute_daily_counts\<close>. \<open>re_contains pat s\<close> stands for pandas'
  \<open>Series.str.contains(pat, case=False, na=False)\<close> on a cell \<open>s\<close>: the source leaves
  \<open>regex\<close> at its default \<open>True\<close>, so \<open>pat\<close> is searched as a regular expression,
  ignoring case. The argument \<open>tz\<close> is only passed to \<open>astimezone\<close>, where it does not
  change the instant. The \<open>groupby("date").size()\<close> and the left merge on \<open>date\<close> give
  each day of the index the number of surviving rows of that local day.
\<close>

definition compute_daily_counts ::
  "(int \<Rightarrow> int) \<Rightarrow> (string \<Rightarrow> string \<Rightarrow> bool) \<Rightarrow> session frame \<Rightarrow> int \<Rightarrow> int \<Rightarrow> (int \<Rightarrow> int)
     \<Rightarrow> string option \<Rightarrow> daily_row frame" where
  "compute_daily_counts sys_offset re_contains sessions start_date days tz reason_filter =
     (let idx_end_date = start_date + (days - 1);
          idx = date_range start_date idx_end_date
      in if ''local_ts'' \<notin> set (columns sessions) \<or> ''survey_name'' \<notin> set (columns sessions)
            \<or> df_empty sessions
         then \<lparr>columns = [''date'', ''count''],
               rows = map (\<lambda>d. \<lparr>d_date = d, d_count = 0\<rparr>) idx\<rparr>
         else
           let win_start = astimezone_naive sys_offset (combine_min start_date);
               win_end = astimezone_naive sys_offset (combine_max idx_end_date);
               df_windowed = filter (\<lambda>s. win_start \<le> instant (local_ts s)
                                        \<and> instant (local_ts s) \<le> win_end) (rows sessions);
               df_windowed' =
                 (case reason_filter of
                    None \<Rightarrow> df_windowed
                  | Some f \<Rightarrow>
                      if f = [] then df_windowed
                      else filter (\<lambda>s. re_contains f (survey_name s)) df_windowed)
           in if df_windowed' \<noteq> []
              then \<lparr>columns = [''date'', ''count''],
                    rows = map (\<lambda>d. \<lparr>d_date = d,
                                      d_count = int (length (filter
                                         (\<lambda>s. local_date (local_ts s) = d) df_windowed'))\<rparr>) idx\<rparr>
              else \<lparr>columns = [''date'', ''count''],
                    rows = map (\<lambda>d. \<lparr>d_date = d, d_count = 0\<rparr>) idx\<rparr>)"

definition compute_bonus_days :: "daily_row frame \<Rightarrow> int \<Rightarrow> int" where
  "compute_bonus_days daily_counts threshold =
     (if threshold \<le> 0 \<or> ''count'' \<notin> set (columns daily_counts) \<or> df_empty daily_counts then 0
      else int (length (filter (\<lambda>r. threshold \<le> d_count r) (rows daily_counts))))"

text \<open>
  \<open>compute_base_rate_counts\<close>. Python's \<open>str.lower\<close> is the parameter \<open>lower\<close>;
  \<open>ascii_lower\<close> is what it does to ASCII text. Here \<open>str.contains\<close> is called with
  \<open>regex=False\<close>: a plain substring test.
\<close>

definition ascii_lower_char :: "char \<Rightarrow> char" where
  "ascii_lower_char c =
     (case map_of (zip ''ABCDEFGHIJKLMNOPQRSTUVWXYZ'' ''abcdefghijklmnopqrstuvwxyz'') c of
        Some l \<Rightarrow> l
      | None \<Rightarrow> c)"

definition ascii_lower :: "string \<Rightarrow> string" where
  "ascii_lower s = map ascii_lower_char s"

definition compute_base_rate_counts ::
  "(string \<Rightarrow> string) \<Rightarrow> session frame \<Rightarrow> rate frame \<Rightarrow> count_row frame" where
  "compute_base_rate_counts lower sessions rates =
     (if ''survey_name'' \<notin> set (columns sessions) \<or> df_empty rates
         \<or> ''reason'' \<notin> set (columns rates) \<or> ''rate_amount'' \<notin> set (columns rates)
      then \<lparr>columns = [''rate_reason'', ''rate_amount'', ''count''], rows = []\<rparr>
      else
        let survey_name_lc = map (\<lambda>s. lower (survey_name s)) (rows sessions)
        in \<lparr>columns = [''rate_reason'', ''rate_amount'', ''count''],
            rows = map (\<lambda>r_row.
                     let rsn = reason r_row;
                         amt = rate_amount r_row;
                         cnt = (if rsn \<noteq> []
                                then int (length (filter (\<lambda>n. str_in (lower rsn) n) survey_name_lc))
                                else 0)
                     in \<lparr>rate_reason = rsn, cr_rate_amount = amt, cr_count = cnt\<rparr>) (rows rates)\<rparr>)"

text \<open>
  The \<open>count\<close> column is an int64 column (\<open>compute_daily_counts\<close> makes it with
  \<open>astype(int)\<close>), and \<open>Series.sum()\<close> adds its cells in int64: the result is the sum
  modulo \<open>2^64\<close>, read as a signed 64-bit number. \<open>int64_wrap\<close> is that reading of an
  integer; wrapping after every addition or once at the end gives the same number
  (\<open>int64_wrap_add\<close> below).
\<close>

definition int64_wrap :: "int \<Rightarrow> int" where
  "int64_wrap x = (x + 9223372036854775808) mod 18446744073709551616 - 9223372036854775808"

text \<open>
  \<open>compute_stats\<close>. \<open>datetime.now(tz).date()\<close> is the parameter \<open>today_local\<close>, which
  takes the place of \<open>tz\<close>. \<open>daily.head(n)\<close> with \<open>n \<ge> 0\<close> is the first \<open>n\<close> rows.
  \<open>num_possible\<close> is a product of Python integers and does not wrap.
\<close>

definition compute_stats :: "int \<Rightarrow> int \<Rightarrow> schema_row \<Rightarrow> daily_row frame \<Rightarrow> int \<times> int" where
  "compute_stats today_local start_date schema_row daily =
     (let days_from_start_to_today = (today_local - start_date) + 1;
          n = min days_from_start_to_today (num_days schema_row);
          num_days_elapsed_in_schema = (if n < 0 then 0 else n);
          num_possible = num_days_elapsed_in_schema * num_possible_per_day schema_row;
          num_completed =
            (if ''count'' \<in> set (columns daily) \<and> \<not> df_empty daily
             then int64_wrap
                    (sum_list (map d_count (take (nat num_days_elapsed_in_schema) (rows daily))))
             else 0)
      in (num_possible, num_completed))"

section \<open>Notions used to state the properties\<close>

text \<open>
  The responses that the loop of \<open>eval_single_condition\<close> passes over with
  \<open>continue\<close>: a skipped response when skipped does not count as true, and a response
  that is not skipped and was not seen.
\<close>

definition loop_skips :: "bool \<Rightarrow> response \<Rightarrow> bool" where
  "loop_skips skip_true r = (if skipped r then \<not> skip_true else not_seen r)"

text \<open>
  "The survey name contains the reason as a case-insensitive substring": after lowering
  both, the reason occurs in the name.
\<close>

definition ci_substring :: "(string \<Rightarrow> string) \<Rightarrow> string \<Rightarrow> string \<Rightarrow> bool" where
  "ci_substring lower rsn name = (\<exists>pre suf. lower name = pre @ lower rsn @ suf)"

text \<open>The number of days of the schema that have begun, as the specification gives it.\<close>

definition days_elapsed :: "int \<Rightarrow> int \<Rightarrow> int \<Rightarrow> int" where
  "days_elapsed today start_date n_days = max 0 (min n_days (today - start_date + 1))"

text \<open>Rows used in the examples below.\<close>

definition ex_cond :: "string \<Rightarrow> pyval \<Rightarrow> string \<Rightarrow> condition" where
  "ex_cond op v sb =
     \<lparr>c_id = ''c1'', c_group_id = ''g1'', c_operator = op, c_value = v, c_skip_behavior = sb\<rparr>"

definition ex_answer :: "string \<Rightarrow> string \<Rightarrow> response" where
  "ex_answer q s = \<lparr>question_name = q, content = PStr s, skipped = False, not_seen = False\<rparr>"

definition ex_skipped :: "string \<Rightarrow> response" where
  "ex_skipped q = \<lparr>question_name = q, content = PFloat NaN, skipped = True, not_seen = False\<rparr>"

definition ex_not_seen :: "string \<Rightarrow> response" where
  "ex_not_seen q = \<lparr>question_name = q, content = PFloat NaN, skipped = False, not_seen = True\<rparr>"

definition ex_session :: "int \<Rightarrow> int \<Rightarrow> string \<Rightarrow> session" where
  "ex_session t off name = \<lparr>local_ts = \<lparr>instant = t, utcoffset = off\<rparr>, survey_name = name\<rparr>"

definition ex_sessions :: "session list \<Rightarrow> session frame" where
  "ex_sessions ss =
     \<lparr>columns = [''session_id'', ''within_study_id'', ''survey_name'', ''started_at_utc'',
                 ''local_ts'', ''local_day''],
      rows = ss\<rparr>"

definition ex_rates :: "rate list \<Rightarrow> rate frame" where
  "ex_rates rs = \<lparr>columns = [''id'', ''reason'', ''rate_amount''], rows = rs\<rparr>"

definition ex_daily :: "int list \<Rightarrow> daily_row frame" where
  "ex_daily counts =
     \<lparr>columns = [''date'', ''count''],
      rows = map (\<lambda>(i, c). \<lparr>d_date = int i, d_count = c\<rparr>) (enumerate 0 counts)\<rparr>"

definition hour_us :: int where
  "hour_us = 3600000000"

text \<open>A session passes the reason filter: no filter, an empty one, or a match.\<close>

definition passes_filter :: "(string \<Rightarrow> string \<Rightarrow> bool) \<Rightarrow> string option \<Rightarrow> session \<Rightarrow> bool" where
  "passes_filter re_contains reason_filter s =
     (case reason_filter of None \<Rightarrow> True | Some f \<Rightarrow> f = [] \<or> re_contains f (survey_name s))"

text \<open>The substring match that the filter is meant to be, ignoring case.\<close>

definition literal_contains :: "string \<Rightarrow> string \<Rightarrow> bool" where
  "literal_contains pat s = str_in (ascii_lower pat) (ascii_lower s)"

section \<open>Properties of the operators\<close>

lemmas dec_float_simps = dec_float_def unsigned_dec_def digit_val_def

lemmas f_cmp_simps = f_ge_def f_gt_def f_le_def f_eq_def

lemma split_on_no_sep: "sep \<notin> set xs \<Longrightarrow> split_on sep xs = [xs]"
  by (induction xs) auto

lemma split_on_one_sep:
  "sep \<notin> set xs \<Longrightarrow> sep \<notin> set ys \<Longrightarrow> split_on sep (xs @ sep # ys) = [xs, ys]"
  by (induction xs) (auto simp: split_on_no_sep)

lemma butlast_range: "butlast (los @ c # his @ [b2]) = los @ c # his"
  by (simp add: butlast_append)

lemma handle_between_general:
  assumes "CHR '','' \<notin> set los" "CHR '','' \<notin> set his" "fl los = Some lo" "fl his = Some hi"
  shows "handle_between fl (PFloat v) (PStr (b1 # los @ CHR '','' # his @ [b2])) =
      Inr ((if b1 = CHR ''['' then f_ge v lo else f_gt v lo)
         \<and> (if b2 = CHR '']'' then f_le v hi else f_lt v hi))"
  using assms
  by (simp add: handle_between_def butlast_range split_on_one_sep del: butlast.simps)

text \<open>
  C4. \<open>handle_between\<close> reads a range string \<open>b1 lo , hi b2\<close> and tests each bound
  by its own bracket: the lower bound is inclusive exactly when \<open>b1\<close> is \<open>[\<close>, the upper
  bound exactly when \<open>b2\<close> is \<open>]\<close>. In particular 1.0 is in \<open>[1,5]\<close>, 5.0 is not in
  \<open>[1,5)\<close>, 1.0 is not in \<open>(1,5)\<close>, and 2.5 is in \<open>(1,5)\<close>.
\<close>

theorem handle_between_bounds:
  "(CHR '','' \<notin> set los \<and> CHR '','' \<notin> set his \<and> fl los = Some lo \<and> fl his = Some hi \<longrightarrow>
      handle_between fl (PFloat v) (PStr (b1 # los @ CHR '','' # his @ [b2])) =
        Inr ((if b1 = CHR ''['' then f_ge v lo else f_gt v lo)
           \<and> (if b2 = CHR '']'' then f_le v hi else f_lt v hi)))
   \<and> handle_between dec_float (PFloat (Fin 1)) (PStr ''[1,5]'') = Inr True
   \<and> handle_between dec_float (PFloat (Fin 5)) (PStr ''[1,5)'') = Inr False
   \<and> handle_between dec_float (PFloat (Fin 1)) (PStr ''(1,5)'') = Inr False
   \<and> handle_between dec_float (PFloat (Fin (5 / 2))) (PStr ''(1,5)'') = Inr True"
proof (intro conjI impI)
  assume "CHR '','' \<notin> set los \<and> CHR '','' \<notin> set his \<and> fl los = Some lo \<and> fl his = Some hi"
  then show "handle_between fl (PFloat v) (PStr (b1 # los @ CHR '','' # his @ [b2])) =
        Inr ((if b1 = CHR ''['' then f_ge v lo else f_gt v lo)
           \<and> (if b2 = CHR '']'' then f_le v hi else f_lt v hi))"
    by (simp add: handle_between_general)
qed (simp_all add: handle_between_def dec_float_simps f_cmp_simps)

theorem handle_between_bounds_witness:
  "CHR '','' \<notin> set ''1'' \<and> CHR '','' \<notin> set ''5'' \<and> dec_float ''1'' = Some (Fin 1)
     \<and> dec_float ''5'' = Some (Fin 5)
     \<and> handle_between dec_float (PFloat (Fin 5)) (PStr ''(1,5]'') = Inr True
     \<and> handle_between dec_float (PFloat (Fin 1)) (PStr ''(1,5]'') = Inr False"
  using handle_between_bounds [where los = "''1''" and his = "''5''" and fl = dec_float
          and lo = "Fin 1" and hi = "Fin 5" and v = "Fin 5" and ?b1.0 = "CHR ''(''"
          and ?b2.0 = "CHR '']''"]
        handle_between_bounds [where los = "''1''" and his = "''5''" and fl = dec_float
          and lo = "Fin 1" and hi = "Fin 5" and v = "Fin 1" and ?b1.0 = "CHR ''(''"
          and ?b2.0 = "CHR '']''"]
  by (simp add: dec_float_simps f_cmp_simps)

lemma ops_unknown: "operator \<notin> set supported_operators \<Longrightarrow> ops fl operator = None"
  by (simp add: ops_def supported_operators_def)

text \<open>
  C7. \<open>evaluate_condition_logic\<close> always returns a truth value: an operator outside
  the supported set gives false; when the operator's function raises, the result is
  false; when it returns, the result is what it returned. A range string without a comma
  under \<open>between\<close>, and an order comparison of a number with a string, give false.
\<close>

theorem evaluate_condition_logic_total:
  "(operator \<notin> set supported_operators \<longrightarrow> evaluate_condition_logic fl v operator t = False)
   \<and> (\<forall>func e. ops fl operator = Some func \<and> func v t = Inl e \<longrightarrow>
         evaluate_condition_logic fl v operator t = False)
   \<and> (\<forall>func b. ops fl operator = Some func \<and> func v t = Inr b \<longrightarrow>
         evaluate_condition_logic fl v operator t = b)
   \<and> evaluate_condition_logic fl v ''between'' (PStr ''[1;5]'') = False
   \<and> evaluate_condition_logic fl (PFloat x) ''<'' (PStr s) = False
   \<and> evaluate_condition_logic fl (PStr s) ''>='' (PFloat x) = False"
proof (intro conjI allI impI)
  assume "operator \<notin> set supported_operators"
  then show "evaluate_condition_logic fl v operator t = False"
    by (simp add: evaluate_condition_logic_def ops_unknown)
next
  show "evaluate_condition_logic fl v ''between'' (PStr ''[1;5]'') = False"
    by (simp add: evaluate_condition_logic_def ops_def handle_between_def)
qed (simp_all add: evaluate_condition_logic_def ops_def)

theorem evaluate_condition_logic_total_witness:
  "''matches'' \<notin> set supported_operators
   \<and> evaluate_condition_logic dec_float (PStr ''7'') ''matches'' (PStr ''7'') = False
   \<and> ops dec_float ''between'' = Some (\<lambda>val tgt. handle_between dec_float val tgt)
   \<and> handle_between dec_float (PFloat (Fin 3)) (PStr ''[1,x]'') = Inl ValueError
   \<and> evaluate_condition_logic dec_float (PFloat (Fin 3)) ''between'' (PStr ''[1,x]'') = False
   \<and> handle_between dec_float (PFloat (Fin 3)) (PStr ''[1,5]'') = Inr True
   \<and> evaluate_condition_logic dec_float (PFloat (Fin 3)) ''between'' (PStr ''[1,5]'') = True"
  using evaluate_condition_logic_total [where operator = "''matches''" and fl = dec_float
          and v = "PStr ''7''" and t = "PStr ''7''"]
        evaluate_condition_logic_total [where operator = "''between''" and fl = dec_float
          and v = "PFloat (Fin 3)" and t = "PStr ''[1,x]''"]
        evaluate_condition_logic_total [where operator = "''between''" and fl = dec_float
          and v = "PFloat (Fin 3)" and t = "PStr ''[1,5]''"]
  by (simp add: supported_operators_def evaluate_condition_logic_def ops_def handle_between_def
        dec_float_simps f_cmp_simps)

section \<open>Properties of the evaluators\<close>

text \<open>
  C5. A condition with operator \<open>empty\<close> and no response to its questions is true. A
  group none of whose conditions exist is true under \<open>AND\<close> and false otherwise (under
  \<open>OR\<close>). A workflow without groups is false, whatever its operator.
\<close>

theorem empty_collections:
  "(c_operator cond = ''empty'' \<and> filter (\<lambda>r. question_name r \<in> set qs) rs = []
      \<longrightarrow> eval_single_condition fl cond rs qs = True)
   \<and> (filter (\<lambda>c. c_group_id c = g_id grp) conditions = []
      \<longrightarrow> eval_condition_group fl grp conditions cqs rs = (g_logical_operator grp = ''AND''))
   \<and> (filter (\<lambda>g. g_workflow_id g = w_id wfl) groups = []
      \<longrightarrow> eval_workflow fl wfl groups conditions cqs rs = False)"
  by (simp add: eval_single_condition_def eval_condition_group_def eval_workflow_def)

theorem empty_collections_witness:
  "eval_single_condition dec_float
      \<lparr>c_id = ''c1'', c_group_id = ''g1'', c_operator = ''empty'', c_value = PStr [],
        c_skip_behavior = ''0''\<rparr>
      [\<lparr>question_name = ''q_other'', content = PStr ''3'', skipped = False, not_seen = False\<rparr>]
      [''q_mood''] = True
   \<and> eval_condition_group dec_float
        \<lparr>g_id = ''g2'', g_workflow_id = ''w1'', g_logical_operator = ''AND''\<rparr>
        [\<lparr>c_id = ''c1'', c_group_id = ''g1'', c_operator = ''=='', c_value = PStr ''0'',
          c_skip_behavior = ''0''\<rparr>] [] [] = True
   \<and> eval_condition_group dec_float
        \<lparr>g_id = ''g2'', g_workflow_id = ''w1'', g_logical_operator = ''OR''\<rparr>
        [\<lparr>c_id = ''c1'', c_group_id = ''g1'', c_operator = ''=='', c_value = PStr ''0'',
          c_skip_behavior = ''0''\<rparr>] [] [] = False
   \<and> eval_workflow dec_float
        \<lparr>w_id = ''w2'', w_logical_operator = ''AND'', w_tag_id = ''t1''\<rparr>
        [\<lparr>g_id = ''g1'', g_workflow_id = ''w1'', g_logical_operator = ''AND''\<rparr>] [] [] [] = False
   \<and> eval_workflow dec_float
        \<lparr>w_id = ''w2'', w_logical_operator = ''OR'', w_tag_id = ''t1''\<rparr>
        [\<lparr>g_id = ''g1'', g_workflow_id = ''w1'', g_logical_operator = ''AND''\<rparr>] [] [] [] = False"
  using empty_collections [where fl = dec_float
          and cond = "\<lparr>c_id = ''c1'', c_group_id = ''g1'', c_operator = ''empty'',
                        c_value = PStr [], c_skip_behavior = ''0''\<rparr>"
          and rs = "[\<lparr>question_name = ''q_other'', content = PStr ''3'', skipped = False,
                      not_seen = False\<rparr>]"
          and qs = "[''q_mood'']"
          and grp = "\<lparr>g_id = ''g2'', g_workflow_id = ''w1'', g_logical_operator = ''AND''\<rparr>"
          and conditions = "[\<lparr>c_id = ''c1'', c_group_id = ''g1'', c_operator = ''=='',
                               c_value = PStr ''0'', c_skip_behavior = ''0''\<rparr>]"
          and wfl = "\<lparr>w_id = ''w2'', w_logical_operator = ''AND'', w_tag_id = ''t1''\<rparr>"
          and groups = "[\<lparr>g_id = ''g1'', g_workflow_id = ''w1'', g_logical_operator = ''AND''\<rparr>]"
          and cqs = "[]"]
        empty_collections [where fl = dec_float
          and cond = "\<lparr>c_id = ''c1'', c_group_id = ''g1'', c_operator = ''empty'',
                        c_value = PStr [], c_skip_behavior = ''0''\<rparr>"
          and rs = "[]"
          and qs = "[''q_mood'']"
          and grp = "\<lparr>g_id = ''g2'', g_workflow_id = ''w1'', g_logical_operator = ''OR''\<rparr>"
          and conditions = "[\<lparr>c_id = ''c1'', c_group_id = ''g1'', c_operator = ''=='',
                               c_value = PStr ''0'', c_skip_behavior = ''0''\<rparr>]"
          and wfl = "\<lparr>w_id = ''w2'', w_logical_operator = ''OR'', w_tag_id = ''t1''\<rparr>"
          and groups = "[\<lparr>g_id = ''g1'', g_workflow_id = ''w1'', g_logical_operator = ''AND''\<rparr>]"
          and cqs = "[]"]
  by (simp add: eval_single_condition_def eval_condition_group_def eval_workflow_def)

lemma loop_skip_true:
  "\<exists>r \<in> set xs. skipped r \<Longrightarrow> responses_loop fl op True tgt xs"
proof (induction xs arbitrary: tgt)
  case Nil
  then show ?case by simp
next
  case (Cons a xs)
  show ?case
  proof (cases "skipped a")
    case True
    then show ?thesis by simp
  next
    case False
    with Cons.prems have "\<exists>r \<in> set xs. skipped r" by auto
    then have "\<And>t. responses_loop fl op True t xs" by (rule Cons.IH)
    then show ?thesis by (simp add: Let_def)
  qed
qed

lemma loop_step_skips:
  "loop_skips st a \<Longrightarrow> responses_loop fl op st tgt (a # xs) = responses_loop fl op st tgt xs"
proof (cases "skipped a")
  case True
  assume "loop_skips st a"
  with True have "\<not> st" by (simp add: loop_skips_def)
  with True show ?thesis by simp
next
  case False
  assume "loop_skips st a"
  with False have "not_seen a" by (simp add: loop_skips_def)
  with False show ?thesis by simp
qed

lemma loop_drop_skips:
  "responses_loop fl op st tgt (filter (\<lambda>r. \<not> loop_skips st r) xs)
     = responses_loop fl op st tgt xs"
proof (induction xs arbitrary: tgt)
  case Nil
  then show ?case by simp
next
  case (Cons a xs)
  show ?case
  proof (cases "loop_skips st a")
    case True
    then have f: "filter (\<lambda>r. \<not> loop_skips st r) (a # xs) = filter (\<lambda>r. \<not> loop_skips st r) xs"
      by simp
    show ?thesis unfolding f loop_step_skips [OF True] by (rule Cons.IH)
  next
    case False
    then have f: "filter (\<lambda>r. \<not> loop_skips st r) (a # xs) = a # filter (\<lambda>r. \<not> loop_skips st r) xs"
      by simp
    from False consider "skipped a" "st" | "\<not> skipped a" "\<not> not_seen a"
      by (auto simp: loop_skips_def split: if_splits)
    then have "responses_loop fl op st tgt (a # filter (\<lambda>r. \<not> loop_skips st r) xs)
                 = responses_loop fl op st tgt (a # xs)"
    proof cases
      case 1
      then show ?thesis by simp
    next
      case 2
      then show ?thesis by (simp add: Let_def Cons.IH)
    qed
    then show ?thesis by (simp only: f)
  qed
qed

lemma loop_all_skipped:
  "\<forall>r \<in> set xs. skipped r \<Longrightarrow> responses_loop fl op st tgt xs = (st \<and> xs \<noteq> [])"
  by (induction xs arbitrary: tgt) auto

lemma loop_all_not_seen:
  "\<forall>r \<in> set xs. \<not> skipped r \<and> not_seen r \<Longrightarrow> responses_loop fl op st tgt xs = False"
  by (induction xs arbitrary: tgt) auto

text \<open>
  C6, as the code has it. Write \<open>skip_true\<close> for \<open>c_skip_behavior cond = "1"\<close>, and call
  a response relevant when its question is one of the condition's.
  (1) When \<open>skip_true\<close> holds and some relevant response is skipped, the result is true.
  (2) Deleting the responses that the loop passes over (skipped ones when \<open>skip_true\<close>
  does not hold; not-seen ones that are not skipped) leaves the result unchanged,
  unless the operator is \<open>empty\<close> and the deletion leaves no relevant response while
  there was one: the test for "no data" counts every relevant response.
  (3) When there are relevant responses and all of them are skipped, the result equals
  \<open>skip_true\<close>, for every operator.
  (4) When there are relevant responses and all of them are not seen and not skipped,
  the result is false, for every operator.
\<close>

theorem skip_semantics:
  "(c_skip_behavior cond = ''1'' \<and> (\<exists>r \<in> set rs. question_name r \<in> set qs \<and> skipped r)
      \<longrightarrow> eval_single_condition fl cond rs qs = True)
   \<and> ((c_operator cond = ''empty'' \<longrightarrow>
          (\<exists>r \<in> set rs. question_name r \<in> set qs
                \<and> \<not> loop_skips (c_skip_behavior cond = ''1'') r)
          \<or> \<not> (\<exists>r \<in> set rs. question_name r \<in> set qs))
      \<longrightarrow> eval_single_condition fl cond
              (filter (\<lambda>r. \<not> loop_skips (c_skip_behavior cond = ''1'') r) rs) qs
            = eval_single_condition fl cond rs qs)
   \<and> ((\<exists>r \<in> set rs. question_name r \<in> set qs)
        \<and> (\<forall>r \<in> set rs. question_name r \<in> set qs \<longrightarrow> skipped r)
      \<longrightarrow> eval_single_condition fl cond rs qs = (c_skip_behavior cond = ''1''))
   \<and> ((\<exists>r \<in> set rs. question_name r \<in> set qs)
        \<and> (\<forall>r \<in> set rs. question_name r \<in> set qs \<longrightarrow> not_seen r \<and> \<not> skipped r)
      \<longrightarrow> eval_single_condition fl cond rs qs = False)"
proof (intro conjI impI)
  let ?sub = "filter (\<lambda>r. question_name r \<in> set qs) rs"
  let ?st = "c_skip_behavior cond = ''1''"
  {
    assume "?st \<and> (\<exists>r \<in> set rs. question_name r \<in> set qs \<and> skipped r)"
    then have st: "?st" and "\<exists>r \<in> set ?sub. skipped r"
      by auto
    then show "eval_single_condition fl cond rs qs = True"
      by (simp add: eval_single_condition_def Let_def loop_skip_true)
  }
  {
    assume h: "c_operator cond = ''empty'' \<longrightarrow>
          (\<exists>r \<in> set rs. question_name r \<in> set qs \<and> \<not> loop_skips ?st r)
          \<or> \<not> (\<exists>r \<in> set rs. question_name r \<in> set qs)"
    let ?kept = "filter (\<lambda>r. question_name r \<in> set qs) (filter (\<lambda>r. \<not> loop_skips ?st r) rs)"
    have k: "?kept = filter (\<lambda>r. \<not> loop_skips ?st r) ?sub"
      by (simp add: conj_commute)
    have e: "c_operator cond = ''empty'' \<Longrightarrow> (?kept = []) = (?sub = [])"
      using h by (auto simp: filter_empty_conv)
    have l: "responses_loop fl (c_operator cond) ?st (c_value cond) ?kept
        = responses_loop fl (c_operator cond) ?st (c_value cond) ?sub"
      unfolding k by (rule loop_drop_skips)
    show "eval_single_condition fl cond (filter (\<lambda>r. \<not> loop_skips ?st r) rs) qs
            = eval_single_condition fl cond rs qs"
      using e l by (auto simp: eval_single_condition_def Let_def)
  }
  {
    assume "(\<exists>r \<in> set rs. question_name r \<in> set qs)
        \<and> (\<forall>r \<in> set rs. question_name r \<in> set qs \<longrightarrow> skipped r)"
    then have ne: "?sub \<noteq> []" and "\<forall>r \<in> set ?sub. skipped r"
      by (auto simp: filter_empty_conv)
    then show "eval_single_condition fl cond rs qs = ?st"
      by (simp add: eval_single_condition_def Let_def loop_all_skipped)
  }
  {
    assume "(\<exists>r \<in> set rs. question_name r \<in> set qs)
        \<and> (\<forall>r \<in> set rs. question_name r \<in> set qs \<longrightarrow> not_seen r \<and> \<not> skipped r)"
    then have ne: "?sub \<noteq> []" and "\<forall>r \<in> set ?sub. \<not> skipped r \<and> not_seen r"
      by (auto simp: filter_empty_conv)
    then show "eval_single_condition fl cond rs qs = False"
      by (simp add: eval_single_condition_def Let_def loop_all_not_seen)
  }
qed

lemmas ex_row_simps = ex_cond_def ex_answer_def ex_skipped_def ex_not_seen_def

lemmas eval_simps = eval_single_condition_def evaluate_condition_logic_def ops_def
  str2float_def is_float_def op_contains_def op_not_contains_def op_empty_def op_not_empty_def
  pd_isna_def

theorem skip_semantics_witness:
  "eval_single_condition dec_float (ex_cond ''=='' (PStr ''1'') ''1'')
      [ex_answer ''q'' ''0'', ex_skipped ''q''] [''q''] = True
   \<and> filter (\<lambda>r. \<not> loop_skips False r) [ex_skipped ''q'', ex_not_seen ''q'', ex_answer ''q'' ''1'']
       = [ex_answer ''q'' ''1'']
   \<and> eval_single_condition dec_float (ex_cond ''=='' (PStr ''1'') ''0'')
        [ex_skipped ''q'', ex_not_seen ''q'', ex_answer ''q'' ''1''] [''q''] = True
   \<and> eval_single_condition dec_float (ex_cond ''=='' (PStr ''1'') ''0'')
        [ex_answer ''q'' ''1''] [''q''] = True
   \<and> eval_single_condition dec_float (ex_cond ''=='' (PStr ''1'') ''0'')
        [ex_skipped ''q''] [''q''] = False
   \<and> eval_single_condition dec_float (ex_cond ''empty'' (PStr []) ''0'')
        [ex_skipped ''q''] [''q''] = False
   \<and> eval_single_condition dec_float (ex_cond ''=='' (PStr ''1'') ''1'')
        [ex_not_seen ''q''] [''q''] = False"
  using skip_semantics [where fl = dec_float and cond = "ex_cond ''=='' (PStr ''1'') ''1''"
          and rs = "[ex_answer ''q'' ''0'', ex_skipped ''q'']" and qs = "[''q'']"]
        skip_semantics [where fl = dec_float and cond = "ex_cond ''=='' (PStr ''1'') ''0''"
          and rs = "[ex_skipped ''q'', ex_not_seen ''q'', ex_answer ''q'' ''1'']" and qs = "[''q'']"]
        skip_semantics [where fl = dec_float and cond = "ex_cond ''=='' (PStr ''1'') ''0''"
          and rs = "[ex_skipped ''q'']" and qs = "[''q'']"]
        skip_semantics [where fl = dec_float and cond = "ex_cond ''empty'' (PStr []) ''0''"
          and rs = "[ex_skipped ''q'']" and qs = "[''q'']"]
        skip_semantics [where fl = dec_float and cond = "ex_cond ''=='' (PStr ''1'') ''1''"
          and rs = "[ex_not_seen ''q'']" and qs = "[''q'']"]
  by (simp add: ex_row_simps loop_skips_def eval_simps dec_float_simps f_cmp_simps)

text \<open>
  A response that was not seen, or one that was skipped when skipped does not count as
  true, is not without effect under the operator \<open>empty\<close>: alone, it makes the condition
  false, where no response at all makes it true.
\<close>

theorem passed_over_response_counts_as_data:
  "eval_single_condition dec_float (ex_cond ''empty'' (PStr []) ''0'') [ex_not_seen ''q''] [''q'']
     = False
   \<and> eval_single_condition dec_float (ex_cond ''empty'' (PStr []) ''0'') [ex_skipped ''q''] [''q'']
     = False
   \<and> eval_single_condition dec_float (ex_cond ''empty'' (PStr []) ''0'') [] [''q''] = True"
  by (simp add: ex_row_simps eval_simps)

text \<open>
  C1. The claim: the result of \<open>eval_single_condition\<close> does not depend on the order of
  the responses, and is true exactly when some response satisfies the operator against
  the condition's comparison value. The code departs from it: the loop assigns the
  parsed float to \<open>target\<close> once a numeric response is met, and every later response is
  compared with that float. Under \<open>contains\<close> with value \<open>5\<close>, the answer \<open>a5b\<close>
  satisfies the condition; it is found when it comes first, and missed when it comes
  after the numeric answer \<open>1\<close>.
\<close>

theorem eval_single_condition_order_dependent:
  "evaluate_condition_logic dec_float (str2float dec_float (PStr ''a5b'')) ''contains''
      (PStr ''5'') = True
   \<and> eval_single_condition dec_float (ex_cond ''contains'' (PStr ''5'') ''0'')
        [ex_answer ''q_a'' ''a5b'', ex_answer ''q_b'' ''1''] [''q_a'', ''q_b''] = True
   \<and> eval_single_condition dec_float (ex_cond ''contains'' (PStr ''5'') ''0'')
        [ex_answer ''q_b'' ''1'', ex_answer ''q_a'' ''a5b''] [''q_a'', ''q_b''] = False"
  by (simp add: ex_row_simps eval_simps dec_float_simps)

section \<open>Properties of the compliance and payment functions\<close>

lemmas ex_table_simps = ex_session_def ex_sessions_def ex_rates_def ex_daily_def

text \<open>
  C9. On a daily-counts table (a table with a \<open>count\<close> column), \<open>compute_bonus_days\<close>
  returns the number of rows whose count is at least the threshold when the threshold is
  positive, and 0 when the threshold is 0 or negative or the table has no rows. The daily
  counts 0, 1, 5, 2 give 2 bonus days for threshold 2 and none for threshold 0.
\<close>

theorem compute_bonus_days_counts:
  "(''count'' \<in> set (columns daily) \<and> 0 < threshold \<longrightarrow>
      compute_bonus_days daily threshold
        = int (length (filter (\<lambda>r. threshold \<le> d_count r) (rows daily))))
   \<and> (threshold \<le> 0 \<longrightarrow> compute_bonus_days daily threshold = 0)
   \<and> (rows daily = [] \<longrightarrow> compute_bonus_days daily threshold = 0)
   \<and> compute_bonus_days (ex_daily [0, 1, 5, 2]) 2 = 2
   \<and> compute_bonus_days (ex_daily [0, 1, 5, 2]) 0 = 0"
proof (intro conjI impI)
  assume "''count'' \<in> set (columns daily) \<and> 0 < threshold"
  then show "compute_bonus_days daily threshold
        = int (length (filter (\<lambda>r. threshold \<le> d_count r) (rows daily)))"
    by (cases "rows daily = []") (auto simp: compute_bonus_days_def df_empty_def)
next
  show "compute_bonus_days (ex_daily [0, 1, 5, 2]) 2 = 2"
    by (simp add: compute_bonus_days_def df_empty_def ex_daily_def)
qed (simp_all add: compute_bonus_days_def df_empty_def)

theorem compute_bonus_days_counts_witness:
  "''count'' \<in> set (columns (ex_daily [3, 0, 4])) \<and> (0::int) < 3
   \<and> compute_bonus_days (ex_daily [3, 0, 4]) 3 = 2
   \<and> compute_bonus_days (ex_daily [3, 0, 4]) (- 1) = 0
   \<and> rows (ex_daily []) = [] \<and> compute_bonus_days (ex_daily []) 3 = 0"
  using compute_bonus_days_counts [where daily = "ex_daily [3, 0, 4]" and threshold = 3]
        compute_bonus_days_counts [where daily = "ex_daily [3, 0, 4]" and threshold = "- 1"]
        compute_bonus_days_counts [where daily = "ex_daily []" and threshold = 3]
  by (simp add: ex_daily_def)

lemma int64_wrap_id:
  "- 9223372036854775808 \<le> x \<Longrightarrow> x < 9223372036854775808 \<Longrightarrow> int64_wrap x = x"
  by (simp add: int64_wrap_def)

lemma int64_wrap_add: "int64_wrap (int64_wrap a + b) = int64_wrap (a + b)"
proof -
  let ?H = "9223372036854775808 :: int"
  let ?M = "18446744073709551616 :: int"
  have "int64_wrap a + b + ?H = (a + ?H) mod ?M + b"
    unfolding int64_wrap_def by linarith
  then have "(int64_wrap a + b + ?H) mod ?M = ((a + ?H) mod ?M + b) mod ?M"
    by (simp only:)
  also have "\<dots> = (a + ?H + b) mod ?M"
    by (rule mod_add_left_eq)
  also have "a + ?H + b = a + b + ?H"
    by linarith
  finally have "(int64_wrap a + b + ?H) mod ?M = (a + b + ?H) mod ?M" .
  then show ?thesis
    unfolding int64_wrap_def [of "int64_wrap a + b"] int64_wrap_def [of "a + b"] by (simp only:)
qed

text \<open>
  C3, as the code has it. With today's local date given, \<open>compute_stats\<close> returns
  \<open>possible = days_elapsed * num_possible_per_day\<close> and, on a daily-counts table,
  \<open>completed\<close> = the sum of the counts of the first \<open>days_elapsed\<close> rows wrapped to a
  signed 64-bit number, which is that sum itself whenever the sum lies between \<open>-2^63\<close>
  and \<open>2^63 - 1\<close>; \<open>days_elapsed\<close> is \<open>min(num_days, today - start_date + 1)\<close>, and 0 if
  that is negative. When today is before the start date both are 0; with 10 days, one
  per day, and today 5 days after the start, possible is 6; once the window has passed,
  possible is \<open>num_days * num_possible_per_day\<close>, that is \<open>num_days\<close> for one per day.
\<close>

theorem compute_stats_spec:
  "fst (compute_stats today start_date schema daily)
     = days_elapsed today start_date (num_days schema) * num_possible_per_day schema
   \<and> (''count'' \<in> set (columns daily) \<longrightarrow>
        snd (compute_stats today start_date schema daily)
          = int64_wrap (sum_list (map d_count
              (take (nat (days_elapsed today start_date (num_days schema))) (rows daily)))))
   \<and> (''count'' \<in> set (columns daily)
        \<and> - 9223372036854775808 \<le> sum_list (map d_count
              (take (nat (days_elapsed today start_date (num_days schema))) (rows daily)))
        \<and> sum_list (map d_count
              (take (nat (days_elapsed today start_date (num_days schema))) (rows daily)))
            < 9223372036854775808 \<longrightarrow>
        snd (compute_stats today start_date schema daily)
          = sum_list (map d_count
              (take (nat (days_elapsed today start_date (num_days schema))) (rows daily))))
   \<and> (today < start_date \<longrightarrow> compute_stats today start_date schema daily = (0, 0))
   \<and> (num_days schema = 10 \<and> num_possible_per_day schema = 1 \<and> today = start_date + 5 \<longrightarrow>
        fst (compute_stats today start_date schema daily) = 6)
   \<and> (0 \<le> num_days schema \<and> num_days schema \<le> today - start_date + 1 \<longrightarrow>
        fst (compute_stats today start_date schema daily)
          = num_days schema * num_possible_per_day schema)
   \<and> (0 \<le> num_days schema \<and> num_days schema \<le> today - start_date + 1
        \<and> num_possible_per_day schema = 1 \<longrightarrow>
        fst (compute_stats today start_date schema daily) = num_days schema)"
proof -
  let ?E = "days_elapsed today start_date (num_days schema)"
  let ?S = "sum_list (map d_count (take (nat ?E) (rows daily)))"
  have z: "int64_wrap 0 = 0" by (simp add: int64_wrap_def)
  have n: "(let d = today - start_date + 1; n = min d (num_days schema)
            in if n < 0 then 0 else n) = ?E"
    by (simp add: days_elapsed_def Let_def min_def max_def)
  have E_eq: "(if min (today - start_date + 1) (num_days schema) < 0 then 0
               else min (today - start_date + 1) (num_days schema)) = ?E"
    using n by (simp add: Let_def)
  have unf: "compute_stats today start_date schema daily
        = (?E * num_possible_per_day schema,
           if ''count'' \<in> set (columns daily) \<and> \<not> df_empty daily
           then int64_wrap ?S else 0)"
    unfolding compute_stats_def Let_def E_eq ..
  have p: "fst (compute_stats today start_date schema daily)
             = ?E * num_possible_per_day schema"
    unfolding unf by simp
  have c: "snd (compute_stats today start_date schema daily) = int64_wrap ?S"
    if h: "''count'' \<in> set (columns daily)"
  proof (cases "rows daily = []")
    case True
    then show ?thesis unfolding unf by (simp add: df_empty_def z)
  next
    case False
    with h have "\<not> df_empty daily" by (auto simp: df_empty_def)
    with h show ?thesis unfolding unf by simp
  qed
  have d: "snd (compute_stats today start_date schema daily) = ?S"
    if "''count'' \<in> set (columns daily) \<and> - 9223372036854775808 \<le> ?S
          \<and> ?S < 9223372036854775808"
    using that c by (simp add: int64_wrap_id)
  have E0: "today < start_date \<Longrightarrow> ?E = 0"
    by (simp add: days_elapsed_def min_def max_def)
  have b: "compute_stats today start_date schema daily = (0, 0)" if "today < start_date"
    unfolding unf E0 [OF that] by (simp add: z)
  have f6: "fst (compute_stats today start_date schema daily) = 6"
    if "num_days schema = 10 \<and> num_possible_per_day schema = 1 \<and> today = start_date + 5"
    unfolding p using that by (simp add: days_elapsed_def)
  have En: "?E = num_days schema"
    if "0 \<le> num_days schema \<and> num_days schema \<le> today - start_date + 1"
    using that by (simp add: days_elapsed_def min_def max_def)
  have f7: "fst (compute_stats today start_date schema daily)
              = num_days schema * num_possible_per_day schema"
    if "0 \<le> num_days schema \<and> num_days schema \<le> today - start_date + 1"
    unfolding p En [OF that] ..
  have f8: "fst (compute_stats today start_date schema daily) = num_days schema"
    if "0 \<le> num_days schema \<and> num_days schema \<le> today - start_date + 1
          \<and> num_possible_per_day schema = 1"
  proof -
    from that have "0 \<le> num_days schema \<and> num_days schema \<le> today - start_date + 1"
      by simp
    from f7 [OF this] that show ?thesis by simp
  qed
  from p c d b f6 f7 f8 show ?thesis by blast
qed

theorem compute_stats_spec_witness:
  "''count'' \<in> set (columns (ex_daily [1, 0, 2]))
   \<and> - 9223372036854775808 \<le> (3::int) \<and> (3::int) < 9223372036854775808
   \<and> compute_stats 20214 20209 \<lparr>num_days = 10, num_possible_per_day = 1, bonus_threshold = 0\<rparr>
        (ex_daily [1, 0, 2]) = (6, 3)
   \<and> compute_stats 20211 20209 \<lparr>num_days = 10, num_possible_per_day = 2, bonus_threshold = 0\<rparr>
        (ex_daily [1, 0, 2, 4]) = (6, 3)
   \<and> (20208::int) < 20209
   \<and> compute_stats 20208 20209 \<lparr>num_days = 10, num_possible_per_day = 1, bonus_threshold = 0\<rparr>
        (ex_daily [1, 0, 2]) = (0, 0)
   \<and> (0::int) \<le> 10 \<and> (10::int) \<le> 20258 - 20209 + 1
   \<and> compute_stats 20258 20209 \<lparr>num_days = 10, num_possible_per_day = 1, bonus_threshold = 0\<rparr>
        (ex_daily [1, 0, 2]) = (10, 3)"
proof -
  let ?sch = "\<lparr>num_days = 10, num_possible_per_day = 1, bonus_threshold = 0\<rparr>"
  have col: "''count'' \<in> set (columns (ex_daily [1, 0, 2]))"
    by (simp add: ex_daily_def)
  let ?sch2 = "\<lparr>num_days = 10, num_possible_per_day = 2, bonus_threshold = 0\<rparr>"
  have col4: "''count'' \<in> set (columns (ex_daily [1, 0, 2, 4]))"
    by (simp add: ex_daily_def)
  have e4: "days_elapsed 20211 20209 (num_days ?sch2) = 3"
    by (simp add: days_elapsed_def)
  have s4: "sum_list (map d_count (take (nat 3) (rows (ex_daily [1, 0, 2, 4])))) = 3"
    by (simp add: ex_daily_def)
  note t4 = compute_stats_spec [where today = 20211 and start_date = 20209
          and schema = ?sch2 and daily = "ex_daily [1, 0, 2, 4]", unfolded e4 s4]
  have r4: "compute_stats 20211 20209 ?sch2 (ex_daily [1, 0, 2, 4]) = (6, 3)"
    using t4 col4 by (simp add: prod_eq_iff)
  have e1: "days_elapsed 20214 20209 (num_days ?sch) = 6"
    and e3: "days_elapsed 20258 20209 (num_days ?sch) = 10"
    by (simp_all add: days_elapsed_def)
  have s1: "sum_list (map d_count (take (nat 6) (rows (ex_daily [1, 0, 2])))) = 3"
    and s3: "sum_list (map d_count (take (nat 10) (rows (ex_daily [1, 0, 2])))) = 3"
    by (simp_all add: ex_daily_def)
  note t1 = compute_stats_spec [where today = 20214 and start_date = 20209
          and schema = ?sch and daily = "ex_daily [1, 0, 2]", unfolded e1 s1]
  note t2 = compute_stats_spec [where today = 20208 and start_date = 20209
          and schema = ?sch and daily = "ex_daily [1, 0, 2]"]
  note t3 = compute_stats_spec [where today = 20258 and start_date = 20209
          and schema = ?sch and daily = "ex_daily [1, 0, 2]", unfolded e3 s3]
  have r1: "compute_stats 20214 20209 ?sch (ex_daily [1, 0, 2]) = (6, 3)"
    using t1 col by (simp add: prod_eq_iff)
  have r2: "compute_stats 20208 20209 ?sch (ex_daily [1, 0, 2]) = (0, 0)"
    using t2 by simp
  have r3: "compute_stats 20258 20209 ?sch (ex_daily [1, 0, 2]) = (10, 3)"
    using t3 col by (simp add: prod_eq_iff)
  from col r1 r2 r3 r4 show ?thesis by simp
qed

text \<open>
  The claim as written fails where the sum leaves the int64 range: the first two counts
  are \<open>2^62\<close> each, their sum is \<open>2^63\<close>, and \<open>completed\<close> is \<open>-2^63\<close>.
\<close>

theorem compute_stats_sum_wraps_counterexample:
  "sum_list (map d_count (take (nat (days_elapsed 20210 20209 10))
      (rows (ex_daily [4611686018427387904, 4611686018427387904])))) = 9223372036854775808
   \<and> compute_stats 20210 20209 \<lparr>num_days = 10, num_possible_per_day = 1, bonus_threshold = 0\<rparr>
        (ex_daily [4611686018427387904, 4611686018427387904]) = (2, - 9223372036854775808)"
  by (simp add: compute_stats_def days_elapsed_def df_empty_def ex_daily_def int64_wrap_def)

lemma starts_with_iff: "starts_with p s \<longleftrightarrow> (\<exists>suf. s = p @ suf)"
  by (induction p s rule: starts_with.induct) auto

lemma str_in_iff: "str_in b a \<longleftrightarrow> (\<exists>pre suf. a = pre @ b @ suf)"
proof (induction a)
  case Nil
  then show ?case by simp
next
  case (Cons c cs)
  have "(\<exists>pre suf. c # cs = pre @ b @ suf)
          \<longleftrightarrow> (\<exists>suf. c # cs = b @ suf) \<or> (\<exists>pre suf. cs = pre @ b @ suf)"
  proof
    assume "\<exists>pre suf. c # cs = pre @ b @ suf"
    then obtain pre suf where e: "c # cs = pre @ b @ suf" by blast
    show "(\<exists>suf. c # cs = b @ suf) \<or> (\<exists>pre suf. cs = pre @ b @ suf)"
    proof (cases pre)
      case Nil
      with e show ?thesis by auto
    next
      case (Cons p ps)
      with e have "cs = ps @ b @ suf" by simp
      then show ?thesis by blast
    qed
  next
    assume "(\<exists>suf. c # cs = b @ suf) \<or> (\<exists>pre suf. cs = pre @ b @ suf)"
    then show "\<exists>pre suf. c # cs = pre @ b @ suf"
    proof
      assume "\<exists>suf. c # cs = b @ suf"
      then obtain suf where "c # cs = [] @ b @ suf" by auto
      then show ?thesis by blast
    next
      assume "\<exists>pre suf. cs = pre @ b @ suf"
      then obtain pre suf where "c # cs = (c # pre) @ b @ suf" by auto
      then show ?thesis by blast
    qed
  qed
  with Cons show ?case by (simp add: starts_with_iff)
qed

lemma str_in_lower: "str_in (lower rsn) (lower name) = ci_substring lower rsn name"
  by (simp add: str_in_iff ci_substring_def)

lemma base_rate_counts_rows:
  assumes "''survey_name'' \<in> set (columns sessions)" "''reason'' \<in> set (columns rates)"
    "''rate_amount'' \<in> set (columns rates)"
  shows "rows (compute_base_rate_counts lower sessions rates) =
     map (\<lambda>r. \<lparr>rate_reason = reason r, cr_rate_amount = rate_amount r,
                cr_count = (if reason r = [] then 0
                            else int (length (filter
                                   (\<lambda>s. ci_substring lower (reason r) (survey_name s))
                                   (rows sessions))))\<rparr>) (rows rates)"
proof (cases "rows rates = []")
  case True
  then show ?thesis by (simp add: compute_base_rate_counts_def df_empty_def)
next
  case False
  with assms have ne: "\<not> df_empty rates" by (auto simp: df_empty_def)
  show ?thesis using assms ne
    by (simp add: compute_base_rate_counts_def Let_def filter_map comp_def str_in_lower)
qed

text \<open>
  C8, as the code has it. When the sessions table has a \<open>survey_name\<close> column and the
  rates table its \<open>reason\<close> and \<open>rate_amount\<close> columns, \<open>compute_base_rate_counts\<close>
  returns one row per rate, in order; for a rate with a non-empty reason the count is the
  number of sessions whose survey name contains the reason as a case-insensitive
  substring, each rate being counted over all the sessions, so that one session can be
  counted under several rates; for a rate with an empty reason the count is 0.
\<close>

theorem base_rate_counts_spec:
  "''survey_name'' \<in> set (columns sessions) \<and> ''reason'' \<in> set (columns rates)
     \<and> ''rate_amount'' \<in> set (columns rates) \<longrightarrow>
   rows (compute_base_rate_counts lower sessions rates) =
     map (\<lambda>r. \<lparr>rate_reason = reason r, cr_rate_amount = rate_amount r,
                cr_count = (if reason r = [] then 0
                            else int (length (filter
                                   (\<lambda>s. ci_substring lower (reason r) (survey_name s))
                                   (rows sessions))))\<rparr>) (rows rates)"
  by (simp add: base_rate_counts_rows)

theorem base_rate_counts_spec_witness:
  "''survey_name'' \<in> set (columns (ex_sessions [ex_session 0 0 ''Daily EMA Survey'',
                                                 ex_session 0 0 ''Baseline survey'']))
   \<and> ''reason'' \<in> set (columns (ex_rates [\<lparr>r_id = ''1'', reason = ''ema'', rate_amount = 2\<rparr>]))
   \<and> ''rate_amount'' \<in> set (columns (ex_rates [\<lparr>r_id = ''1'', reason = ''ema'', rate_amount = 2\<rparr>]))
   \<and> rows (compute_base_rate_counts ascii_lower
        (ex_sessions [ex_session 0 0 ''Daily EMA Survey'', ex_session 0 0 ''Baseline survey''])
        (ex_rates [\<lparr>r_id = ''1'', reason = ''ema'', rate_amount = 2\<rparr>,
                   \<lparr>r_id = ''2'', reason = ''Survey'', rate_amount = 5\<rparr>]))
      = [\<lparr>rate_reason = ''ema'', cr_rate_amount = 2, cr_count = 1\<rparr>,
         \<lparr>rate_reason = ''Survey'', cr_rate_amount = 5, cr_count = 2\<rparr>]"
  using base_rate_counts_spec [where lower = ascii_lower
          and sessions = "ex_sessions [ex_session 0 0 ''Daily EMA Survey'',
                                       ex_session 0 0 ''Baseline survey'']"
          and rates = "ex_rates [\<lparr>r_id = ''1'', reason = ''ema'', rate_amount = 2\<rparr>,
                                 \<lparr>r_id = ''2'', reason = ''Survey'', rate_amount = 5\<rparr>]"]
  by (simp add: ex_table_simps compute_base_rate_counts_def df_empty_def ascii_lower_def
        ascii_lower_char_def)

text \<open>
  The claim as written fails for a rate whose reason is empty: the empty reason is a
  case-insensitive substring of the one survey name, and the count is 0, not 1.
\<close>

theorem base_rate_counts_empty_reason_counterexample:
  "ci_substring ascii_lower (reason \<lparr>r_id = ''1'', reason = [], rate_amount = 2\<rparr>)
      (survey_name (ex_session 0 0 ''EMA''))
   \<and> rows (compute_base_rate_counts ascii_lower (ex_sessions [ex_session 0 0 ''EMA''])
        (ex_rates [\<lparr>r_id = ''1'', reason = [], rate_amount = 2\<rparr>]))
      = [\<lparr>rate_reason = [], cr_rate_amount = 2, cr_count = 0\<rparr>]"
  by (simp add: ex_table_simps compute_base_rate_counts_def df_empty_def
        str_in_lower [symmetric] ascii_lower_def ascii_lower_char_def)

text \<open>
  C10. A rate whose reason is the empty string gets the count 0: every row of the
  result with an empty reason has count 0, whatever the sessions are; and when the tables
  have their columns, the result has a row for each rate, so the row of a rate with an
  empty reason is there and has count 0.
\<close>

theorem empty_reason_counts_zero:
  "(\<forall>row \<in> set (rows (compute_base_rate_counts lower sessions rates)).
       rate_reason row = [] \<longrightarrow> cr_count row = 0)
   \<and> (''survey_name'' \<in> set (columns sessions) \<and> ''reason'' \<in> set (columns rates)
        \<and> ''rate_amount'' \<in> set (columns rates) \<longrightarrow>
       length (rows (compute_base_rate_counts lower sessions rates)) = length (rows rates)
       \<and> (\<forall>i < length (rows rates). reason (rows rates ! i) = [] \<longrightarrow>
             rate_reason (rows (compute_base_rate_counts lower sessions rates) ! i) = []
             \<and> cr_count (rows (compute_base_rate_counts lower sessions rates) ! i) = 0))"
proof (intro conjI impI)
  show "\<forall>row \<in> set (rows (compute_base_rate_counts lower sessions rates)).
       rate_reason row = [] \<longrightarrow> cr_count row = 0"
    by (auto simp: compute_base_rate_counts_def Let_def)
next
  assume h: "''survey_name'' \<in> set (columns sessions) \<and> ''reason'' \<in> set (columns rates)
        \<and> ''rate_amount'' \<in> set (columns rates)"
  then show "length (rows (compute_base_rate_counts lower sessions rates)) = length (rows rates)"
    by (simp add: base_rate_counts_rows)
next
  assume h: "''survey_name'' \<in> set (columns sessions) \<and> ''reason'' \<in> set (columns rates)
        \<and> ''rate_amount'' \<in> set (columns rates)"
  then show "\<forall>i < length (rows rates). reason (rows rates ! i) = [] \<longrightarrow>
             rate_reason (rows (compute_base_rate_counts lower sessions rates) ! i) = []
             \<and> cr_count (rows (compute_base_rate_counts lower sessions rates) ! i) = 0"
    by (simp add: base_rate_counts_rows)
qed

theorem empty_reason_counts_zero_witness:
  "''survey_name'' \<in> set (columns (ex_sessions [ex_session 0 0 ''EMA'', ex_session 0 0 ''Exit'']))
   \<and> rows (compute_base_rate_counts ascii_lower
        (ex_sessions [ex_session 0 0 ''EMA'', ex_session 0 0 ''Exit''])
        (ex_rates [\<lparr>r_id = ''1'', reason = [], rate_amount = 2\<rparr>,
                   \<lparr>r_id = ''2'', reason = ''e'', rate_amount = 3\<rparr>]))
      = [\<lparr>rate_reason = [], cr_rate_amount = 2, cr_count = 0\<rparr>,
         \<lparr>rate_reason = ''e'', cr_rate_amount = 3, cr_count = 2\<rparr>]"
  using empty_reason_counts_zero [where lower = ascii_lower
          and sessions = "ex_sessions [ex_session 0 0 ''EMA'', ex_session 0 0 ''Exit'']"
          and rates = "ex_rates [\<lparr>r_id = ''1'', reason = [], rate_amount = 2\<rparr>,
                                 \<lparr>r_id = ''2'', reason = ''e'', rate_amount = 3\<rparr>]"]
  by (simp add: ex_table_simps compute_base_rate_counts_def df_empty_def ascii_lower_def
        ascii_lower_char_def)

lemma in_date_range: "d \<in> set (date_range a b) \<longleftrightarrow> a \<le> d \<and> d \<le> b"
proof
  assume "d \<in> set (date_range a b)"
  then show "a \<le> d \<and> d \<le> b" by (auto simp: date_range_def)
next
  assume h: "a \<le> d \<and> d \<le> b"
  then have "nat (d - a) < nat (b - a + 1)" and "d = a + int (nat (d - a))" by auto
  then show "d \<in> set (date_range a b)"
    unfolding date_range_def by (metis (no_types, lifting) atLeast0LessThan imageI lessThan_iff list.set_map set_upt)
qed

lemma local_date_bounds:
  assumes "local_date ts = d"
  shows "d * day_us \<le> instant ts + utcoffset ts"
    and "instant ts + utcoffset ts \<le> d * day_us + (day_us - 1)"
proof -
  let ?x = "instant ts + utcoffset ts"
  have pos: "0 < day_us" by (simp add: day_us_def)
  have dec: "?x = day_us * (?x div day_us) + ?x mod day_us" by simp
  have lo: "0 \<le> ?x mod day_us" and hi: "?x mod day_us < day_us" using pos by simp_all
  have q: "?x div day_us = d" using assms by (simp add: local_date_def)
  have dec': "?x = d * day_us + ?x mod day_us" using dec unfolding q by (simp add: mult.commute)
  show "d * day_us \<le> ?x" using dec' lo by linarith
  show "?x \<le> d * day_us + (day_us - 1)" using dec' hi by linarith
qed

lemma in_window_of_local_date:
  assumes "local_date ts = d" "a \<le> d" "d \<le> b" "utcoffset ts = c"
  shows "combine_min a - c \<le> instant ts \<and> instant ts \<le> combine_max b - c"
proof -
  have "d * 86400000000 \<le> instant ts + c" "instant ts + c \<le> d * 86400000000 + 86399999999"
    using local_date_bounds [OF assms(1)] assms(4) by (simp_all add: day_us_def)
  with assms(2,3) show ?thesis
    unfolding combine_min_def combine_max_def day_us_def by linarith
qed

text \<open>
  When the system's zone gives the two window bounds the same UTC offset \<open>c\<close> that the
  timestamps carry, the result is the dense table of the claim: one row per day of the
  window, with the number of sessions of that local day that pass the filter as
  \<open>re_contains\<close> matches it.
\<close>

lemma daily_counts_when_zones_agree:
  assumes cols: "''local_ts'' \<in> set (columns sessions)" "''survey_name'' \<in> set (columns sessions)"
    and off: "\<forall>s \<in> set (rows sessions). utcoffset (local_ts s) = c"
    and sys: "sys_offset (combine_min start_date) = c"
      "sys_offset (combine_max (start_date + (days - 1))) = c"
  shows "compute_daily_counts sys_offset re_contains sessions start_date days tz reason_filter =
     \<lparr>columns = [''date'', ''count''],
      rows = map (\<lambda>d. \<lparr>d_date = d,
                        d_count = int (length (filter
                          (\<lambda>s. local_date (local_ts s) = d
                               \<and> passes_filter re_contains reason_filter s) (rows sessions)))\<rparr>)
               (date_range start_date (start_date + (days - 1)))\<rparr>"
proof -
  let ?e = "start_date + (days - 1)"
  let ?idx = "date_range start_date ?e"
  let ?W = "\<lambda>s. combine_min start_date - c \<le> instant (local_ts s)
                \<and> instant (local_ts s) \<le> combine_max ?e - c"
  let ?F = "passes_filter re_contains reason_filter"
  let ?win = "filter ?F (filter ?W (rows sessions))"
  have win_eq: "(case reason_filter of
                    None \<Rightarrow> filter ?W (rows sessions)
                  | Some f \<Rightarrow>
                      if f = [] then filter ?W (rows sessions)
                      else filter (\<lambda>s. re_contains f (survey_name s)) (filter ?W (rows sessions)))
                = ?win"
    by (cases reason_filter) (auto simp: passes_filter_def intro: filter_cong)
  have day: "filter (\<lambda>s. local_date (local_ts s) = d) ?win
               = filter (\<lambda>s. local_date (local_ts s) = d \<and> ?F s) (rows sessions)"
    if "d \<in> set ?idx" for d
  proof -
    from that have r: "start_date \<le> d" "d \<le> ?e" by (simp_all add: in_date_range)
    have "?W s" if "s \<in> set (rows sessions)" "local_date (local_ts s) = d" for s
      using in_window_of_local_date [OF that(2) r] off that(1) by blast
    then show ?thesis by (auto intro: filter_cong)
  qed
  have rows_eq: "map (\<lambda>d. \<lparr>d_date = d, d_count = int (length (filter
                     (\<lambda>s. local_date (local_ts s) = d) ?win))\<rparr>) ?idx
        = map (\<lambda>d. \<lparr>d_date = d, d_count = int (length (filter
                     (\<lambda>s. local_date (local_ts s) = d \<and> ?F s) (rows sessions)))\<rparr>) ?idx"
  proof (rule map_cong [OF refl])
    fix d
    assume "d \<in> set ?idx"
    then show "\<lparr>d_date = d, d_count = int (length (filter
                     (\<lambda>s. local_date (local_ts s) = d) ?win))\<rparr>
        = \<lparr>d_date = d, d_count = int (length (filter
                     (\<lambda>s. local_date (local_ts s) = d \<and> ?F s) (rows sessions)))\<rparr>"
      by (simp only: day)
  qed
  have zero: "map (\<lambda>d. \<lparr>d_date = d, d_count = 0\<rparr>) ?idx
        = map (\<lambda>d. \<lparr>d_date = d, d_count = int (length (filter
                     (\<lambda>s. local_date (local_ts s) = d) ?win))\<rparr>) ?idx"
    if "?win = []"
    using that by simp
  have emp: "df_empty sessions \<Longrightarrow> ?win = []"
    using cols by (auto simp: df_empty_def)
  let ?Z = "\<lparr>columns = [''date'', ''count''], rows = map (\<lambda>d. \<lparr>d_date = d, d_count = 0\<rparr>) ?idx\<rparr>"
  let ?C = "\<lparr>columns = [''date'', ''count''],
             rows = map (\<lambda>d. \<lparr>d_date = d, d_count = int (length (filter
                     (\<lambda>s. local_date (local_ts s) = d) ?win))\<rparr>) ?idx\<rparr>"
  have unf: "compute_daily_counts sys_offset re_contains sessions start_date days tz reason_filter
        = (if ''local_ts'' \<notin> set (columns sessions) \<or> ''survey_name'' \<notin> set (columns sessions)
              \<or> df_empty sessions then ?Z
           else if ?win \<noteq> [] then ?C else ?Z)"
    unfolding compute_daily_counts_def Let_def astimezone_naive_def sys win_eq ..
  have "compute_daily_counts sys_offset re_contains sessions start_date days tz reason_filter = ?C"
  proof (cases "?win = []")
    case True
    then have "?Z = ?C" using zero by simp
    with True show ?thesis unfolding unf by simp
  next
    case False
    with emp have "\<not> df_empty sessions" by blast
    with False cols show ?thesis unfolding unf by simp
  qed
  then show ?thesis by (simp only: rows_eq)
qed

text \<open>
  Whatever the zones, the result has one row per day of the window, in order.
\<close>

lemma daily_counts_dates:
  "map d_date (rows (compute_daily_counts sys_offset re_contains sessions start_date days tz
      reason_filter)) = date_range start_date (start_date + (days - 1))"
  by (simp add: compute_daily_counts_def Let_def comp_def)

lemma daily_counts_length:
  "length (rows (compute_daily_counts sys_offset re_contains sessions start_date days tz
      reason_filter)) = nat days"
  by (simp add: compute_daily_counts_def Let_def date_range_def)

text \<open>
  The reason filter is matched by \<open>re_contains\<close>, a regular-expression search: with any
  matcher for which the pattern \<open>a.c\<close> finds \<open>abc\<close>, as it does for Python's \<open>re\<close>,
  the session named \<open>abc\<close> is counted under the filter \<open>a.c\<close>, which is not a substring
  of its name.
\<close>

lemma daily_counts_filter_is_regex:
  assumes "re_contains ''a.c'' ''abc''"
  shows "compute_daily_counts (\<lambda>w. 0) re_contains (ex_sessions [ex_session (20209 * day_us) 0 ''abc''])
           20209 1 (\<lambda>t. 0) (Some ''a.c'')
         = \<lparr>columns = [''date'', ''count''], rows = [\<lparr>d_date = 20209, d_count = 1\<rparr>]\<rparr>
         \<and> \<not> ci_substring ascii_lower ''a.c'' ''abc''"
  using assms
  by (simp add: ex_table_simps compute_daily_counts_def df_empty_def date_range_def
        astimezone_naive_def combine_min_def combine_max_def local_date_def day_us_def
        str_in_lower [symmetric] ascii_lower_def ascii_lower_char_def)

text \<open>
  C2. The claim: \<open>compute_daily_counts\<close> returns \<open>num_days\<close> rows, one per day from
  \<open>start_date\<close>, each with the number of sessions whose local timestamp falls on that day
  in the given timezone and whose survey name contains the filter. The code departs from
  it: the bounds of the window are naive datetimes, which \<open>astimezone\<close> reads in the zone
  of the machine, not in \<open>tz\<close>. On a machine on UTC, with timestamps in the zone UTC-4,
  a session at 23:00 local time on the start day (03:00 UTC of the next day) falls after
  the computed end of a one-day window, and the day's count is 0; on a machine in the
  zone UTC-4 the same call gives 1.
\<close>

theorem daily_counts_window_in_system_zone:
  "local_date (local_ts (ex_session (20209 * day_us + 27 * hour_us) (- 4 * hour_us) ''EMA'')) = 20209
   \<and> compute_daily_counts (\<lambda>w. 0) literal_contains
        (ex_sessions [ex_session (20209 * day_us + 27 * hour_us) (- 4 * hour_us) ''EMA''])
        20209 1 (\<lambda>t. - 4 * hour_us) None
      = \<lparr>columns = [''date'', ''count''], rows = [\<lparr>d_date = 20209, d_count = 0\<rparr>]\<rparr>
   \<and> compute_daily_counts (\<lambda>w. - 4 * hour_us) literal_contains
        (ex_sessions [ex_session (20209 * day_us + 27 * hour_us) (- 4 * hour_us) ''EMA''])
        20209 1 (\<lambda>t. - 4 * hour_us) None
      = \<lparr>columns = [''date'', ''count''], rows = [\<lparr>d_date = 20209, d_count = 1\<rparr>]\<rparr>"
  by (simp add: ex_table_simps compute_daily_counts_def df_empty_def date_range_def
        astimezone_naive_def combine_min_def combine_max_def local_date_def day_us_def hour_us_def)

text \<open>
  The table of that call has its columns and a row, so the count 0 does not come from
  the branch for a missing column or an empty table.
\<close>

theorem daily_counts_window_in_system_zone_witness:
  "''local_ts'' \<in> set (columns (ex_sessions
        [ex_session (20209 * day_us + 27 * hour_us) (- 4 * hour_us) ''EMA'']))
   \<and> ''survey_name'' \<in> set (columns (ex_sessions
        [ex_session (20209 * day_us + 27 * hour_us) (- 4 * hour_us) ''EMA'']))
   \<and> \<not> df_empty (ex_sessions [ex_session (20209 * day_us + 27 * hour_us) (- 4 * hour_us) ''EMA''])
   \<and> map d_count (rows (compute_daily_counts (\<lambda>w. 0) literal_contains
        (ex_sessions [ex_session (20209 * day_us + 27 * hour_us) (- 4 * hour_us) ''EMA''])
        20209 1 (\<lambda>t. - 4 * hour_us) None)) = [0]"
  using daily_counts_window_in_system_zone
  by (simp add: ex_sessions_def df_empty_def)

section \<open>Where the order of the responses does not matter\<close>

text \<open>
  When the loop cannot change \<open>target\<close> (the operator is \<open>between\<close>, or parsing the
  comparison value gives it back: it is already a float, or it is a string that is not a
  number), the loop returns true exactly when some response counts: a skipped one when
  skipped counts as true, or an answered one that satisfies the operator. The result of
  \<open>eval_single_condition\<close> then depends only on the set of responses.
\<close>

lemma loop_stable_target:
  assumes "op = ''between'' \<or> str2float fl tgt = tgt"
  shows "responses_loop fl op st tgt xs \<longleftrightarrow>
     (\<exists>r \<in> set xs. (skipped r \<and> st)
        \<or> (\<not> skipped r \<and> \<not> not_seen r
            \<and> evaluate_condition_logic fl (str2float fl (content r)) op tgt))"
proof (induction xs)
  case Nil
  then show ?case by simp
next
  case (Cons a xs)
  have t: "(if op \<noteq> ''between'' \<and> is_float (str2float fl (content a))
            then str2float fl tgt else tgt) = tgt"
    using assms by auto
  show ?case
  proof (cases "skipped a")
    case True
    then show ?thesis using Cons.IH by auto
  next
    case False
    then show ?thesis using Cons.IH by (cases "not_seen a") (auto simp: Let_def t)
  qed
qed

lemma eval_single_condition_stable_target:
  assumes "c_operator cond = ''between'' \<or> str2float fl (c_value cond) = c_value cond"
    and "set rs = set rs'"
  shows "eval_single_condition fl cond rs qs = eval_single_condition fl cond rs' qs"
proof -
  let ?P = "\<lambda>r. question_name r \<in> set qs"
  from assms(2) have s: "set (filter ?P rs) = set (filter ?P rs')" by simp
  then have e: "(filter ?P rs = []) = (filter ?P rs' = [])"
    by (metis set_empty)
  show ?thesis
    unfolding eval_single_condition_def Let_def loop_stable_target [OF assms(1)] s e ..
qed

end
